theory Spec2Isabelle
  imports Main
begin

section \<open>The C library functions the scanner calls\<close>

text \<open>
  The scanner reads text files under /proc with \<open>fgets\<close>, takes them apart with
  \<open>sscanf\<close>, \<open>atoi\<close>, \<open>strncmp\<close> and \<open>strcspn\<close>, and builds strings with
  \<open>snprintf\<close>. Each is modelled on \<open>string\<close> (a list of bytes). A C string ends at
  its first NUL byte, so a buffer is read through \<open>cstr\<close>. Where ISO C leaves a result
  open (a number too large for its type), the model follows glibc on 64-bit Linux, the
  only platform with the /proc files the program reads: \<open>strtol\<close> saturates at the
  bounds of \<open>long\<close> and the store into a 32-bit object keeps the low 32 bits.
\<close>

definition cstr :: "string \<Rightarrow> string" where
  "cstr s = takeWhile (\<lambda>c. c \<noteq> CHR 0x00) s"

definition isdigit :: "char \<Rightarrow> bool" where
  "isdigit c = (48 \<le> (of_char c :: nat) \<and> (of_char c :: nat) \<le> 57)"

definition isspace :: "char \<Rightarrow> bool" where
  "isspace c = ((of_char c :: nat) = 32 \<or> (9 \<le> (of_char c :: nat) \<and> (of_char c :: nat) \<le> 13))"

definition isxdigit :: "char \<Rightarrow> bool" where
  "isxdigit c = (isdigit c \<or> (65 \<le> (of_char c :: nat) \<and> (of_char c :: nat) \<le> 70)
                 \<or> (97 \<le> (of_char c :: nat) \<and> (of_char c :: nat) \<le> 102))"

definition digit_val :: "char \<Rightarrow> nat" where
  "digit_val c = of_char c - 48"

definition hex_val :: "char \<Rightarrow> nat" where
  "hex_val c = (if isdigit c then of_char c - 48
                else if (of_char c :: nat) \<le> 70 then of_char c - 55
                else of_char c - 87)"

definition digits_val :: "string \<Rightarrow> nat" where
  "digits_val ds = foldl (\<lambda>a c. 10 * a + digit_val c) 0 ds"

definition hex_digits_val :: "string \<Rightarrow> nat" where
  "hex_digits_val ds = foldl (\<lambda>a c. 16 * a + hex_val c) 0 ds"

definition skip_ws :: "string \<Rightarrow> string" where
  "skip_ws s = dropWhile isspace s"

text \<open>An optional sign: whether it was a minus, and the input after it.\<close>

definition opt_sign :: "string \<Rightarrow> bool \<times> string" where
  "opt_sign s = (case s of
      [] \<Rightarrow> (False, [])
    | c # r \<Rightarrow> if c = CHR ''-'' then (True, r) else if c = CHR ''+'' then (False, r) else (False, s))"

text \<open>\<open>(int) x\<close> and \<open>(unsigned) x\<close> for a 64-bit \<open>x\<close>: the low 32 bits.\<close>

definition to_int32 :: "int \<Rightarrow> int" where
  "to_int32 x = (x + 2 ^ 31) mod 2 ^ 32 - 2 ^ 31"

definition to_uint32 :: "int \<Rightarrow> nat" where
  "to_uint32 x = nat (x mod 2 ^ 32)"

text \<open>The value \<open>strtol\<close> gives for a sign and a magnitude: saturated to \<open>long\<close>.\<close>

definition strtol_sat :: "bool \<Rightarrow> nat \<Rightarrow> int" where
  "strtol_sat neg v = (if neg then max (- int v) (- (2 ^ 63)) else min (int v) (2 ^ 63 - 1))"

text \<open>\<open>strtoul\<close>: saturated to \<open>unsigned long\<close>, negated modulo \<open>2 ^ 64\<close> after a minus.\<close>

definition strtoul_sat :: "bool \<Rightarrow> nat \<Rightarrow> int" where
  "strtoul_sat neg v = (if 2 ^ 64 \<le> int v then 2 ^ 64 - 1
                        else if neg then (- int v) mod 2 ^ 64 else int v)"

text \<open>
  A decimal integer as \<open>strtol\<close> and the conversion \<open>%d\<close> read it: white space, an
  optional sign, one or more digits. The result is the \<open>long\<close> value and the input left.
\<close>

definition scan_dec :: "string \<Rightarrow> (int \<times> string) option" where
  "scan_dec s =
     (let (neg, s2) = opt_sign (skip_ws s);
          ds = takeWhile isdigit s2
      in if ds = [] then None else Some (strtol_sat neg (digits_val ds), dropWhile isdigit s2))"

text \<open>\<open>atoi(s)\<close> is \<open>(int) strtol(s, NULL, 10)\<close>: 0 when no number is there.\<close>

definition atoi :: "string \<Rightarrow> int" where
  "atoi s = (case scan_dec s of None \<Rightarrow> 0 | Some (v, _) \<Rightarrow> to_int32 v)"

text \<open>
  The conversion \<open>%X\<close>: white space, an optional sign, an optional \<open>0x\<close> or \<open>0X\<close>, then
  hexadecimal digits. With the prefix and no digit after it glibc reads the number 0.
  The result is the value as the \<open>int\<close> the source stores it in.
\<close>

definition strip_0x :: "string \<Rightarrow> string" where
  "strip_0x s = (case s of
      c # x # r \<Rightarrow> if c = CHR ''0'' \<and> (x = CHR ''x'' \<or> x = CHR ''X'') then r else s
    | _ \<Rightarrow> s)"

definition scan_hex :: "string \<Rightarrow> int option" where
  "scan_hex s =
     (let (neg, s2) = opt_sign (skip_ws s);
          s3 = strip_0x s2;
          ds = takeWhile isxdigit s3
      in if ds = [] \<and> s3 = s2 then None
         else Some (to_int32 (strtoul_sat neg (hex_digits_val ds))))"

text \<open>
  \<open>sscanf(line, "%*d: %[^:]:%X", local_addr, &local_port) == 2\<close>, as the local port
  read: a decimal number that is not stored, a colon, any white space, a non-empty run of
  bytes other than a colon (the local address), a colon, and a hexadecimal number. The
  result is \<open>None\<close> when \<open>sscanf\<close> returns anything but 2. The conversion \<open>%[^:]\<close>
  has no field width: the source's 32-byte \<open>local_addr\<close> overflows on an address of 32
  bytes or more, which C leaves undefined; the kernel writes 8 hexadecimal digits there
  and the model lets the conversion succeed at any length.
\<close>

definition sscanf_tcp_line :: "string \<Rightarrow> int option" where
  "sscanf_tcp_line s =
     (case scan_dec s of
        None \<Rightarrow> None
      | Some (_, s1) \<Rightarrow>
         (case s1 of
            [] \<Rightarrow> None
          | c # s2 \<Rightarrow>
             if c \<noteq> CHR '':'' then None
             else let s3 = skip_ws s2;
                      addr = takeWhile (\<lambda>x. x \<noteq> CHR '':'') s3;
                      s4 = dropWhile (\<lambda>x. x \<noteq> CHR '':'') s3
                  in if addr = [] then None
                     else (case s4 of [] \<Rightarrow> None | _ # s5 \<Rightarrow> scan_hex s5)))"

text \<open>
  \<open>sscanf(status_line, "Uid:\t%d", &uid)\<close> on a line that starts with \<open>Uid:\<close>:
  the number after the label, as the unsigned 32-bit \<open>uid_t\<close> it is stored in, or
  \<open>None\<close> when no number is there and \<open>uid\<close> keeps its value.
\<close>

definition sscanf_uid :: "string \<Rightarrow> nat option" where
  "sscanf_uid s = (case scan_dec (skip_ws (drop 4 s)) of
      None \<Rightarrow> None
    | Some (v, _) \<Rightarrow> Some (to_uint32 v))"

text \<open>
  \<open>fgets(buf, n, fp)\<close> on the unread part of a file: at most \<open>n - 1\<close> bytes, up to and
  with the first newline; \<open>None\<close> (the C \<open>NULL\<close>) at the end of the file. The result is
  the bytes read and the part still unread.
\<close>

fun fgets_aux :: "nat \<Rightarrow> string \<Rightarrow> string \<times> string" where
  "fgets_aux k [] = ([], [])"
| "fgets_aux k (c # cs) =
     (if k = 0 then ([], c # cs)
      else if c = CHR 0x0A then ([c], cs)
      else (case fgets_aux (k - 1) cs of (l, r) \<Rightarrow> (c # l, r)))"

definition fgets :: "nat \<Rightarrow> string \<Rightarrow> (string \<times> string) option" where
  "fgets n s = (if s = [] then None else Some (fgets_aux (n - 1) s))"

text \<open>Every successful \<open>fgets\<close> into a buffer of 256 bytes moves the file on.\<close>

lemma fgets_aux_length: "length (fst (fgets_aux k s)) + length (snd (fgets_aux k s)) = length s"
  by (induction k s rule: fgets_aux.induct) (auto split: prod.splits)

lemma fgets_aux_nonempty: "0 < k \<Longrightarrow> s \<noteq> [] \<Longrightarrow> fst (fgets_aux k s) \<noteq> []"
  by (cases s) (auto split: prod.splits)

lemma fgets_shorter: "fgets 256 s = Some (l, r) \<Longrightarrow> length r < length s"
proof -
  assume a: "fgets 256 s = Some (l, r)"
  then have s: "s \<noteq> []" and lr: "fgets_aux 255 s = (l, r)"
    by (auto simp: fgets_def split: if_splits)
  from fgets_aux_nonempty [of 255 s] s lr have "l \<noteq> []" by simp
  moreover from fgets_aux_length [of 255 s] lr have "length l + length r = length s" by simp
  ultimately show ?thesis by (cases l) auto
qed

text \<open>\<open>snprintf(buf, n, ...)\<close> keeps the first \<open>n - 1\<close> bytes of what it formats.\<close>

definition snprintf :: "nat \<Rightarrow> string \<Rightarrow> string" where
  "snprintf n s = take (n - 1) s"

text \<open>The conversion \<open>%-ws\<close>: the string, then blanks up to the width.\<close>

definition pad_right :: "nat \<Rightarrow> string \<Rightarrow> string" where
  "pad_right w s = s @ replicate (w - length s) (CHR '' '')"

fun dec_of_nat :: "nat \<Rightarrow> string" where
  "dec_of_nat n =
     (if n < 10 then [''0123456789'' ! n]
      else dec_of_nat (n div 10) @ [''0123456789'' ! (n mod 10)])"

declare dec_of_nat.simps [simp del]

definition dec_of_int :: "int \<Rightarrow> string" where
  "dec_of_int i = (if i < 0 then CHR ''-'' # dec_of_nat (nat (- i)) else dec_of_nat (nat i))"

section \<open>The operating system as the scanner meets it\<close>

text \<open>
  The program makes two connection attempts per port at most: the first in \<open>main\<close>,
  the second in \<open>check_port_state\<close>. What the system answers is a parameter of the
  model, one answer per port and attempt (each is asked once in a run):
  \<^item> \<open>getpid\<close>: the scanner's own process identifier;
  \<open>socket_ok p d\<close>: \<open>socket()\<close> returns a descriptor;
  \<open>connect_ok p d\<close>: \<open>connect()\<close> returns 0;
  \<^item> \<open>readdir_proc p\<close>: the names \<open>readdir\<close> lists in /proc, in its order, while the
  owner of port \<open>p\<close> is looked up (\<open>None\<close>: \<open>opendir\<close> fails);
  \<open>fopen_proc p path\<close>: the bytes of the file at \<open>path\<close> then (\<open>None\<close>: \<open>fopen\<close> fails);
  \<^item> \<open>getpwuid\<close> and \<open>getservbyport\<close>: the user and service databases.
\<close>

datatype dial = First | Second

record env =
  getpid :: int
  socket_ok :: "int \<Rightarrow> dial \<Rightarrow> bool"
  connect_ok :: "int \<Rightarrow> dial \<Rightarrow> bool"
  readdir_proc :: "int \<Rightarrow> string list option"
  fopen_proc :: "int \<Rightarrow> string \<Rightarrow> string option"
  getpwuid :: "nat \<Rightarrow> string option"
  getservbyport :: "int \<Rightarrow> string option"

text \<open>
  What the program holds and does: the global \<open>our_pid\<close>, the descriptors, directory
  and file handles that are open, the calls to the network and to /proc made so far
  (each with the port it is made for), and the rows printed so far.
\<close>

datatype handle = HSock int dial | HDir int | HFile string

datatype event = EvSocket int dial | EvConnect int dial | EvOpendir int

record row =
  col_port :: int
  col_state :: string
  col_service :: string
  col_process :: string

record state =
  our_pid :: int
  handles :: "handle list"
  trace :: "event list"
  out :: "row list"

definition sys_socket :: "env \<Rightarrow> int \<Rightarrow> dial \<Rightarrow> state \<Rightarrow> bool \<times> state" where
  "sys_socket e p d st =
     (if socket_ok e p d
      then (True, st\<lparr>handles := HSock p d # handles st, trace := trace st @ [EvSocket p d]\<rparr>)
      else (False, st\<lparr>trace := trace st @ [EvSocket p d]\<rparr>))"

definition sys_connect :: "env \<Rightarrow> int \<Rightarrow> dial \<Rightarrow> state \<Rightarrow> bool \<times> state" where
  "sys_connect e p d st = (connect_ok e p d, st\<lparr>trace := trace st @ [EvConnect p d]\<rparr>)"

definition sys_close :: "handle \<Rightarrow> state \<Rightarrow> state" where
  "sys_close h st = st\<lparr>handles := remove1 h (handles st)\<rparr>"

definition sys_opendir :: "env \<Rightarrow> int \<Rightarrow> state \<Rightarrow> string list option \<times> state" where
  "sys_opendir e p st =
     (case readdir_proc e p of
        None \<Rightarrow> (None, st\<lparr>trace := trace st @ [EvOpendir p]\<rparr>)
      | Some names \<Rightarrow>
          (Some names, st\<lparr>handles := HDir p # handles st, trace := trace st @ [EvOpendir p]\<rparr>))"

definition sys_fopen :: "env \<Rightarrow> int \<Rightarrow> string \<Rightarrow> state \<Rightarrow> string option \<times> state" where
  "sys_fopen e p path st =
     (case fopen_proc e p path of
        None \<Rightarrow> (None, st)
      | Some bytes \<Rightarrow> (Some bytes, st\<lparr>handles := HFile path # handles st\<rparr>))"

section \<open>get_process_info\<close>

text \<open>
  What \<open>snprintf\<close> writes into the static buffer \<open>process_info\<close> for a match is kept
  as its three arguments; \<open>format_info\<close> is the string of the buffer. The buffer starts
  empty (\<open>None\<close>) at every call.
\<close>

record proc_record =
  exe_name :: string
  pid_str :: string
  owner_name :: string

definition format_info :: "proc_record \<Rightarrow> string" where
  "format_info r =
     snprintf 512 (pad_right 15 (exe_name r) @ ''  PID: '' @ pad_right 6 (pid_str r)
                   @ ''  User: '' @ pad_right 8 (owner_name r))"

definition buffer_string :: "proc_record option \<Rightarrow> string" where
  "buffer_string b = (case b of None \<Rightarrow> [] | Some r \<Rightarrow> format_info r)"

text \<open>
  The loop over the status file: the first line that starts with \<open>Uid:\<close> ends it, and
  sets \<open>uid\<close> when a number follows the label. \<open>uid\<close> starts as 0.
\<close>

function read_uid :: "string \<Rightarrow> nat \<Rightarrow> nat" where
  "read_uid status_fp uid =
     (case fgets 256 status_fp of
        None \<Rightarrow> uid
      | Some (status_line, rest) \<Rightarrow>
          if take 4 (cstr status_line) = ''Uid:''
          then (case sscanf_uid (cstr status_line) of None \<Rightarrow> uid | Some u \<Rightarrow> u)
          else read_uid rest uid)"
  by pat_completeness auto
termination
proof (relation "measure (\<lambda>(s, u). length s)")
  show "wf (measure (\<lambda>(s, u). length s))" by simp
next
  fix status_fp :: string and uid :: nat and x2 status_line rest
  assume a: "fgets 256 status_fp = Some x2" "(status_line, rest) = x2"
  from a have "fgets 256 status_fp = Some (status_line, rest)" by simp
  from fgets_shorter [OF this] show "((rest, uid), (status_fp, uid)) \<in> measure (\<lambda>(s, u). length s)"
    by simp
qed

text \<open>\<open>snprintf(path, sizeof(path), "/proc/%s/<file>", entry->d_name)\<close> with 256 bytes.\<close>

definition proc_path :: "string \<Rightarrow> string \<Rightarrow> string" where
  "proc_path d_name file = snprintf 256 (''/proc/'' @ d_name @ ''/'' @ file)"

text \<open>
  The body of \<open>if (local_port == port)\<close>: open the comm and the status file of the
  process; with both open, read the name and the owner and write the buffer (when the
  comm file gives a line), then close both. With one of them not open, neither is closed.
\<close>

definition read_details :: "env \<Rightarrow> int \<Rightarrow> string \<Rightarrow> proc_record option \<Rightarrow> state
                             \<Rightarrow> proc_record option \<times> state" where
  "read_details e port d_name buf st =
     (let comm_path = proc_path d_name ''comm'';
          status_path = proc_path d_name ''status'';
          (comm_fp, st1) = sys_fopen e port comm_path st;
          (status_fp, st2) = sys_fopen e port status_path st1
      in case comm_fp of
           None \<Rightarrow> (buf, st2)
         | Some comm_bytes \<Rightarrow>
            (case status_fp of
               None \<Rightarrow> (buf, st2)
             | Some status_bytes \<Rightarrow>
                 (case fgets 256 comm_bytes of
                    None \<Rightarrow> buf
                  | Some (proc_name, _) \<Rightarrow>
                      Some \<lparr>exe_name = takeWhile (\<lambda>c. c \<noteq> CHR 0x0A) (cstr proc_name),
                            pid_str = d_name,
                            owner_name = (case getpwuid e (read_uid status_bytes 0) of
                                            None \<Rightarrow> ''unknown''
                                          | Some pw_name \<Rightarrow> pw_name)\<rparr>,
                  sys_close (HFile status_path) (sys_close (HFile comm_path) st2))))"

text \<open>
  The loop over the lines of a net/tcp file, from the unread part \<open>fp\<close>: the first line
  whose local port is \<open>port\<close> ends it (\<open>break\<close>), after \<open>read_details\<close>.
\<close>

function scan_tcp :: "env \<Rightarrow> int \<Rightarrow> string \<Rightarrow> string \<Rightarrow> proc_record option \<Rightarrow> state
                        \<Rightarrow> proc_record option \<times> state" where
  "scan_tcp e port d_name fp buf st =
     (case fgets 256 fp of
        None \<Rightarrow> (buf, st)
      | Some (line, rest) \<Rightarrow>
          if sscanf_tcp_line (cstr line) = Some port
          then read_details e port d_name buf st
          else scan_tcp e port d_name rest buf st)"
  by pat_completeness auto
termination
proof (relation "measure (\<lambda>(e, port, d_name, fp, buf, st). length fp)")
  show "wf (measure (\<lambda>(e :: env, port :: int, d_name :: string, fp :: string,
                        buf :: proc_record option, st :: state). length fp))"
    by simp
next
  fix e :: env and port :: int and d_name fp :: string and buf :: "proc_record option"
    and st :: state and x2 line rest
  assume a: "fgets 256 fp = Some x2" "(line, rest) = x2"
  from a have "fgets 256 fp = Some (line, rest)" by simp
  from fgets_shorter [OF this]
  show "((e, port, d_name, rest, buf, st), (e, port, d_name, fp, buf, st))
          \<in> measure (\<lambda>(e, port, d_name, fp, buf, st). length fp)"
    by simp
qed

text \<open>
  The body of the loop over /proc, for the entry \<open>d_name\<close>: entries whose name does not
  start with a digit, and the scanner's own, are passed over; the header line of net/tcp
  is read and dropped; the file is closed after the loop over its lines.
\<close>

definition scan_entry :: "env \<Rightarrow> int \<Rightarrow> string \<Rightarrow> proc_record option \<Rightarrow> state
                           \<Rightarrow> proc_record option \<times> state" where
  "scan_entry e port d_name buf st =
     (if (case d_name of [] \<Rightarrow> True | c # _ \<Rightarrow> if isdigit c then atoi d_name = our_pid st else True)
      then (buf, st)
      else let path = proc_path d_name ''net/tcp'';
               (fp, st1) = sys_fopen e port path st
           in case fp of
                None \<Rightarrow> (buf, st1)
              | Some bytes \<Rightarrow>
                  let after_header = (case fgets 256 bytes of None \<Rightarrow> bytes | Some (_, rest) \<Rightarrow> rest);
                      (buf', st2) = scan_tcp e port d_name after_header buf st1
                  in (buf', sys_close (HFile path) st2))"

fun scan_dir :: "env \<Rightarrow> int \<Rightarrow> string list \<Rightarrow> proc_record option \<Rightarrow> state
                   \<Rightarrow> proc_record option \<times> state" where
  "scan_dir e port [] buf st = (buf, st)"
| "scan_dir e port (d_name # names) buf st =
     (case scan_entry e port d_name buf st of (buf', st') \<Rightarrow> scan_dir e port names buf' st')"

text \<open>
  \<open>correlate\<close> is \<open>get_process_info\<close> before the buffer is read as a string: the
  record written last, if any.
\<close>

definition correlate :: "env \<Rightarrow> int \<Rightarrow> state \<Rightarrow> proc_record option \<times> state" where
  "correlate e port st =
     (case sys_opendir e port st of
        (None, st1) \<Rightarrow> (None, st1)
      | (Some names, st1) \<Rightarrow>
          (case scan_dir e port names None st1 of
             (buf, st2) \<Rightarrow> (buf, sys_close (HDir port) st2)))"

definition get_process_info :: "env \<Rightarrow> int \<Rightarrow> state \<Rightarrow> string \<times> state" where
  "get_process_info e port st =
     (case correlate e port st of (buf, st') \<Rightarrow> (buffer_string buf, st'))"

section \<open>check_port_state\<close>

definition check_port_state :: "env \<Rightarrow> int \<Rightarrow> state \<Rightarrow> int \<times> state" where
  "check_port_state e port st =
     (case sys_socket e port Second st of
        (False, st1) \<Rightarrow> (0, st1)
      | (True, st1) \<Rightarrow>
          (case sys_connect e port Second st1 of
             (True, st2) \<Rightarrow> (2, sys_close (HSock port Second) st2)
           | (False, st2) \<Rightarrow> (1, sys_close (HSock port Second) st2)))"

section \<open>main\<close>

definition START_PORT :: int where "START_PORT = 1"
definition END_PORT :: int where "END_PORT = 65535"
definition COL_PORT :: nat where "COL_PORT = 8"
definition COL_STATE :: nat where "COL_STATE = 12"
definition COL_SERVICE :: nat where "COL_SERVICE = 20"
definition COL_PROC :: nat where "COL_PROC = 30"

definition state_name :: "int \<Rightarrow> string" where
  "state_name port_state =
     (if port_state = 2 then ''LISTENING'' else if port_state = 1 then ''ESTABLISHED'' else ''OPEN'')"

text \<open>The body of the \<open>for\<close> loop, for one port.\<close>

definition scan_port :: "env \<Rightarrow> int \<Rightarrow> state \<Rightarrow> state" where
  "scan_port e port st =
     (case sys_socket e port First st of
        (False, st1) \<Rightarrow> st1
      | (True, st1) \<Rightarrow>
          (case sys_connect e port First st1 of
             (False, st2) \<Rightarrow> sys_close (HSock port First) st2
           | (True, st2) \<Rightarrow>
               (case check_port_state e port st2 of
                  (port_state, st3) \<Rightarrow>
                    (case get_process_info e port st3 of
                       (proc_info, st4) \<Rightarrow>
                         sys_close (HSock port First)
                           (st4\<lparr>out := out st4 @
                              [\<lparr>col_port = port,
                                col_state = state_name port_state,
                                col_service = (case getservbyport e port of
                                                 None \<Rightarrow> ''unknown''
                                               | Some s_name \<Rightarrow> s_name),
                                col_process = (if proc_info = [] then ''unknown''
                                               else proc_info)\<rparr>]\<rparr>)))))"

function scan_loop :: "env \<Rightarrow> int \<Rightarrow> state \<Rightarrow> state" where
  "scan_loop e port st =
     (if port \<le> END_PORT then scan_loop e (port + 1) (scan_port e port st) else st)"
  by pat_completeness auto
termination
  by (relation "measure (\<lambda>(e, port, st). nat (END_PORT + 1 - port))") auto

text \<open>
  \<open>main\<close>: \<open>our_pid = getpid()\<close>, then the loop from \<open>START_PORT\<close>. Nothing is open and
  nothing is printed when it starts. The banner and the column titles, printed once
  before the loop, are \<open>banner\<close>; a row is printed as \<open>format_row\<close>.
\<close>

definition initial_state :: state where
  "initial_state = \<lparr>our_pid = 0, handles = [], trace = [], out = []\<rparr>"

definition main :: "env \<Rightarrow> state" where
  "main e = scan_loop e START_PORT (initial_state\<lparr>our_pid := getpid e\<rparr>)"

definition format_row :: "row \<Rightarrow> string" where
  "format_row r =
     pad_right COL_PORT (dec_of_int (col_port r)) @ '' '' @ pad_right COL_STATE (col_state r)
     @ '' '' @ pad_right COL_SERVICE (col_service r) @ '' '' @ col_process r @ [CHR 0x0A]"

definition banner :: "string list" where
  "banner =
     [''Scanning 127.0.0.1 ports '' @ dec_of_int START_PORT @ '' to '' @ dec_of_int END_PORT
        @ ''...'' @ [CHR 0x0A, CHR 0x0A],
      CHR 0x0A # ''Port Scanner Results'' @ [CHR 0x0A],
      pad_right COL_PORT ''PORT'' @ '' '' @ pad_right COL_STATE ''STATE'' @ '' ''
        @ pad_right COL_SERVICE ''SERVICE'' @ '' '' @ pad_right COL_PROC ''PROCESS'' @ [CHR 0x0A],
      pad_right COL_PORT ''--------'' @ '' '' @ pad_right COL_STATE ''-----------'' @ '' ''
        @ pad_right COL_SERVICE ''-------------------'' @ '' ''
        @ pad_right COL_PROC ''------------------------------'' @ [CHR 0x0A]]"

definition stdout_of :: "env \<Rightarrow> string list" where
  "stdout_of e = banner @ map format_row (out (main e))"

section \<open>The loops, read line by line\<close>

text \<open>
  \<open>fgets_lines\<close> is the sequence of lines that repeated calls of \<open>fgets\<close> with the
  256-byte buffer return from a file. \<open>has_port\<close> says that a line of a socket table
  has the local port asked for, and \<open>status_uid\<close> is the number on the first line of
  a status file that starts with \<open>Uid:\<close>. The two loops of the source compute them.
\<close>

declare read_uid.simps [simp del] scan_tcp.simps [simp del] scan_loop.simps [simp del]

function fgets_lines :: "string \<Rightarrow> string list" where
  "fgets_lines fp = (case fgets 256 fp of None \<Rightarrow> [] | Some (line, rest) \<Rightarrow> line # fgets_lines rest)"
  by pat_completeness auto
termination
proof (relation "measure length")
  show "wf (measure (length :: string \<Rightarrow> nat))" by simp
next
  fix fp :: string and x2 line rest
  assume "fgets 256 fp = Some x2" "(line, rest) = x2"
  then have "fgets 256 fp = Some (line, rest)" by simp
  from fgets_shorter [OF this] show "(rest, fp) \<in> measure length" by simp
qed

declare fgets_lines.simps [simp del]

definition has_port :: "int \<Rightarrow> string \<Rightarrow> bool" where
  "has_port port fp = list_ex (\<lambda>line. sscanf_tcp_line (cstr line) = Some port) (fgets_lines fp)"


lemmas sys_defs = sys_socket_def sys_connect_def sys_close_def sys_opendir_def sys_fopen_def

lemma fgets_lines_None: "fgets 256 fp = None \<Longrightarrow> fgets_lines fp = []"
  by (subst fgets_lines.simps) simp

lemma fgets_lines_Some: "fgets 256 fp = Some (line, rest) \<Longrightarrow> fgets_lines fp = line # fgets_lines rest"
  by (subst fgets_lines.simps) simp

lemma scan_tcp_eq:
  "scan_tcp e p d fp buf st = (if has_port p fp then read_details e p d buf st else (buf, st))"
proof (induction e p d fp buf st rule: scan_tcp.induct)
  case (1 e port d_name fp buf st)
  show ?case
  proof (cases "fgets 256 fp")
    case None
    then have "scan_tcp e port d_name fp buf st = (buf, st)"
      by (subst scan_tcp.simps) simp
    with None show ?thesis by (simp add: has_port_def fgets_lines_None)
  next
    case (Some lr)
    obtain line rest where lr: "lr = (line, rest)" by (cases lr)
    from Some lr have fg: "fgets 256 fp = Some (line, rest)" by simp
    show ?thesis
    proof (cases "sscanf_tcp_line (cstr line) = Some port")
      case True
      with fg have "scan_tcp e port d_name fp buf st = read_details e port d_name buf st"
        by (subst scan_tcp.simps) simp
      with True show ?thesis by (simp add: has_port_def fgets_lines_Some [OF fg])
    next
      case False
      with fg have "scan_tcp e port d_name fp buf st = scan_tcp e port d_name rest buf st"
        by (subst scan_tcp.simps) simp
      also note 1 [OF Some lr [symmetric] False]
      finally show ?thesis using False by (simp add: has_port_def fgets_lines_Some [OF fg])
    qed
  qed
qed


section \<open>One entry of /proc, and the loop over them\<close>

text \<open>
  \<open>candidate\<close> is the test at the head of the loop over /proc, for an entry that is
  not passed over; \<open>entry_matches\<close> says that the entry is one and that its socket
  table, after the header line, has the port; \<open>entry_record\<close> is what the loop body
  writes into an empty buffer for the entry, when the scanner's identifier is \<open>pid\<close>.
\<close>

definition candidate :: "int \<Rightarrow> string \<Rightarrow> bool" where
  "candidate pid d_name = (case d_name of [] \<Rightarrow> False | c # _ \<Rightarrow> isdigit c \<and> atoi d_name \<noteq> pid)"

definition after_header :: "string \<Rightarrow> string" where
  "after_header bytes = (case fgets 256 bytes of None \<Rightarrow> bytes | Some (_, rest) \<Rightarrow> rest)"

definition entry_matches :: "env \<Rightarrow> int \<Rightarrow> int \<Rightarrow> string \<Rightarrow> bool" where
  "entry_matches e port pid d_name =
     (candidate pid d_name \<and>
      (case fopen_proc e port (proc_path d_name ''net/tcp'') of
         None \<Rightarrow> False
       | Some bytes \<Rightarrow> has_port port (after_header bytes)))"

definition entry_record :: "env \<Rightarrow> int \<Rightarrow> int \<Rightarrow> string \<Rightarrow> proc_record option" where
  "entry_record e port pid d_name =
     fst (scan_entry e port d_name None (initial_state\<lparr>our_pid := pid\<rparr>))"

lemma read_details_frame:
  "our_pid (snd (read_details e p d buf st)) = our_pid st
   \<and> trace (snd (read_details e p d buf st)) = trace st
   \<and> out (snd (read_details e p d buf st)) = out st"
  by (simp add: read_details_def sys_defs Let_def case_prod_unfold split: option.splits)

lemma read_details_fst:
  "fst (read_details e p d buf st) =
     (case fst (read_details e p d None st') of None \<Rightarrow> buf | Some r \<Rightarrow> Some r)"
  by (simp add: read_details_def sys_defs Let_def case_prod_unfold split: option.splits)

lemma scan_entry_eq:
  "scan_entry e port d buf st =
     (if entry_matches e port (our_pid st) d
      then (case read_details e port d buf
                   (st\<lparr>handles := HFile (proc_path d ''net/tcp'') # handles st\<rparr>) of
              (buf', st') \<Rightarrow> (buf', sys_close (HFile (proc_path d ''net/tcp'')) st'))
      else (buf, st))"
  by (simp add: scan_entry_def entry_matches_def candidate_def after_header_def scan_tcp_eq
      sys_defs Let_def split: option.splits list.splits)

lemma scan_entry_frame:
  "our_pid (snd (scan_entry e p d buf st)) = our_pid st
   \<and> trace (snd (scan_entry e p d buf st)) = trace st
   \<and> out (snd (scan_entry e p d buf st)) = out st"
  by (simp add: scan_entry_eq read_details_frame sys_close_def case_prod_unfold)

lemma scan_entry_fst:
  "fst (scan_entry e p d buf st) =
     (case entry_record e p (our_pid st) d of None \<Rightarrow> buf | Some r \<Rightarrow> Some r)"
  using read_details_fst [of e p d buf _
      "initial_state\<lparr>our_pid := our_pid st, handles := [HFile (proc_path d ''net/tcp'')]\<rparr>"]
  by (simp add: entry_record_def scan_entry_eq case_prod_unfold initial_state_def)

lemma scan_dir_frame:
  "our_pid (snd (scan_dir e p names buf st)) = our_pid st
   \<and> trace (snd (scan_dir e p names buf st)) = trace st
   \<and> out (snd (scan_dir e p names buf st)) = out st"
proof (induction names arbitrary: buf st)
  case Nil
  show ?case by simp
next
  case (Cons d names)
  show ?case
    using Cons [of "fst (scan_entry e p d buf st)" "snd (scan_entry e p d buf st)"]
      scan_entry_frame [of e p d buf st]
    by (simp add: case_prod_unfold)
qed

lemma scan_dir_fst:
  "fst (scan_dir e p names buf st) =
     (case List.map_filter (entry_record e p (our_pid st)) names of
        [] \<Rightarrow> buf
      | r # rs \<Rightarrow> Some (last (r # rs)))"
proof (induction names arbitrary: buf st)
  case Nil
  show ?case by (simp add: List.map_filter_simps)
next
  case (Cons d names)
  show ?case
    using Cons [of "fst (scan_entry e p d buf st)" "snd (scan_entry e p d buf st)"]
      scan_entry_frame [of e p d buf st] scan_entry_fst [of e p d buf st]
    by (simp add: case_prod_unfold List.map_filter_simps split: option.splits list.splits)
qed

section \<open>The whole of get_process_info\<close>

lemma correlate_eq:
  "correlate e p st =
     (case readdir_proc e p of
        None \<Rightarrow> (None, st\<lparr>trace := trace st @ [EvOpendir p]\<rparr>)
      | Some names \<Rightarrow>
          (fst (scan_dir e p names None
                  (st\<lparr>handles := HDir p # handles st, trace := trace st @ [EvOpendir p]\<rparr>)),
           sys_close (HDir p)
             (snd (scan_dir e p names None
                     (st\<lparr>handles := HDir p # handles st, trace := trace st @ [EvOpendir p]\<rparr>)))))"
  by (simp add: correlate_def sys_opendir_def case_prod_unfold split: option.splits)

lemma correlate_frame:
  "our_pid (snd (correlate e p st)) = our_pid st
   \<and> trace (snd (correlate e p st)) = trace st @ [EvOpendir p]
   \<and> out (snd (correlate e p st)) = out st"
  by (simp add: correlate_eq sys_close_def scan_dir_frame split: option.splits)

lemma correlate_fst:
  "fst (correlate e p st) =
     (case readdir_proc e p of
        None \<Rightarrow> None
      | Some names \<Rightarrow>
          (case List.map_filter (entry_record e p (our_pid st)) names of
             [] \<Rightarrow> None
           | r # rs \<Rightarrow> Some (last (r # rs))))"
  by (simp add: correlate_eq scan_dir_fst split: option.splits)

text \<open>
  \<open>proc_details\<close> is what \<open>read_details\<close> writes into an empty buffer: the record of
  the process, when its comm and status files open and the comm file has a line.
\<close>

definition proc_details :: "env \<Rightarrow> int \<Rightarrow> string \<Rightarrow> proc_record option" where
  "proc_details e port d_name = fst (read_details e port d_name None initial_state)"

lemma read_details_result:
  "fst (read_details e p d buf st) = (case proc_details e p d of None \<Rightarrow> buf | Some r \<Rightarrow> Some r)"
  unfolding proc_details_def by (rule read_details_fst)

lemma entry_record_eq:
  "entry_record e p pid d = (if entry_matches e p pid d then proc_details e p d else None)"
  by (simp add: entry_record_def scan_entry_eq read_details_result case_prod_unfold
      split: option.splits)

lemma proc_details_pid: "proc_details e p d = Some r \<Longrightarrow> pid_str r = d"
  by (auto simp: proc_details_def read_details_def sys_defs Let_def case_prod_unfold
      split: option.splits)

lemma entry_record_candidate:
  "entry_record e p pid d = Some r \<Longrightarrow> pid_str r = d \<and> candidate pid d"
  by (auto simp: entry_record_eq entry_matches_def proc_details_pid split: if_splits)

lemma correlate_from_entry:
  assumes "fst (correlate e p st) = Some r"
  shows "\<exists>names d. readdir_proc e p = Some names \<and> d \<in> set names
           \<and> entry_record e p (our_pid st) d = Some r"
proof -
  from assms obtain names where names: "readdir_proc e p = Some names"
    by (auto simp: correlate_fst split: option.splits)
  let ?rs = "List.map_filter (entry_record e p (our_pid st)) names"
  from assms names have ne: "?rs \<noteq> []" and r: "r = last ?rs"
    by (auto simp: correlate_fst split: list.splits)
  then have "r \<in> set ?rs" by simp
  then obtain d where "d \<in> set names" "entry_record e p (our_pid st) d = Some r"
    by (auto simp: List.map_filter_def)
  with names show ?thesis by blast
qed

text \<open>\<open>atoi\<close> reads back the decimal numeral of an identifier.\<close>

lemma digit_chars: "k < 10 \<Longrightarrow> isdigit (''0123456789'' ! k) \<and> digit_val (''0123456789'' ! k) = k"
proof -
  assume "k < 10"
  then have "k \<in> {0, 1, 2, 3, 4, 5, 6, 7, 8, 9}" by auto
  then show ?thesis by (auto simp: isdigit_def digit_val_def)
qed

lemma dec_of_nat_digits: "list_all isdigit (dec_of_nat n) \<and> dec_of_nat n \<noteq> []"
proof (induction n rule: dec_of_nat.induct)
  case (1 n)
  show ?case
  proof (cases "n < 10")
    case True
    then show ?thesis by (subst (1 2) dec_of_nat.simps) (simp add: digit_chars)
  next
    case False
    with 1 show ?thesis by (subst (1 2) dec_of_nat.simps) (simp add: digit_chars)
  qed
qed

lemma digits_val_dec_of_nat: "digits_val (dec_of_nat n) = n"
proof (induction n rule: dec_of_nat.induct)
  case (1 n)
  show ?case
  proof (cases "n < 10")
    case True
    then show ?thesis by (subst dec_of_nat.simps) (simp add: digits_val_def digit_chars)
  next
    case False
    with 1 have "digits_val (dec_of_nat (n div 10)) = n div 10" by simp
    with False show ?thesis
      by (subst dec_of_nat.simps) (simp add: digits_val_def digit_chars)
  qed
qed

lemma digit_not_space_sign:
  "isdigit c \<Longrightarrow> \<not> isspace c \<and> c \<noteq> CHR ''-'' \<and> c \<noteq> CHR ''+''"
  by (auto simp: isdigit_def isspace_def)

lemma scan_dec_digits:
  assumes "list_all isdigit s" "s \<noteq> []"
  shows "scan_dec s = Some (strtol_sat False (digits_val s), [])"
proof -
  from assms obtain c cs where s: "s = c # cs" and c: "isdigit c" by (cases s) auto
  from c s have "skip_ws s = s" "opt_sign s = (False, s)"
    using digit_not_space_sign [OF c] by (auto simp: skip_ws_def opt_sign_def)
  moreover from assms(1) have "takeWhile isdigit s = s" "dropWhile isdigit s = []"
    by (auto simp: list_all_iff)
  ultimately show ?thesis using assms(2)
    by (simp add: scan_dec_def del: takeWhile_eq_all_conv dropWhile_eq_Nil_conv)
qed

lemma atoi_dec_of_int:
  assumes "0 \<le> i" "i < 2 ^ 31"
  shows "atoi (dec_of_int i) = i"
proof -
  from assms have d: "dec_of_int i = dec_of_nat (nat i)" by (simp add: dec_of_int_def)
  have "scan_dec (dec_of_nat (nat i)) = Some (strtol_sat False (nat i), [])"
    using scan_dec_digits [of "dec_of_nat (nat i)"] dec_of_nat_digits [of "nat i"]
    by (simp add: digits_val_dec_of_nat)
  with assms d show ?thesis
    by (simp add: atoi_def strtol_sat_def to_int32_def)
qed


lemma scan_tcp_first_match:
  "fgets 256 fp = Some (line, rest) \<Longrightarrow> sscanf_tcp_line (cstr line) = Some port
   \<Longrightarrow> scan_tcp e port d fp buf st = read_details e port d buf st"
  by (subst scan_tcp.simps) simp

section \<open>One port, and the sweep\<close>

text \<open>
  \<open>first_dial_ok\<close>: the socket of \<open>main\<close> for the port is made and its
  \<open>connect\<close> returns 0. \<open>owner_info\<close> is the string \<open>get_process_info\<close>
  returns in a run of \<open>main\<close>. \<open>port_row\<close> and \<open>port_events\<close> are the row
  that the loop body prints for an open port and the calls it makes for a port; the
  lemmas below show that the loop body and the loop compute them.
\<close>

definition first_dial_ok :: "env \<Rightarrow> int \<Rightarrow> bool" where
  "first_dial_ok e p = (socket_ok e p First \<and> connect_ok e p First)"

definition owner_info :: "env \<Rightarrow> int \<Rightarrow> string" where
  "owner_info e p = fst (get_process_info e p (initial_state\<lparr>our_pid := getpid e\<rparr>))"

definition port_row :: "env \<Rightarrow> int \<Rightarrow> row" where
  "port_row e p =
     \<lparr>col_port = p,
      col_state = (if socket_ok e p Second
                   then if connect_ok e p Second then ''LISTENING'' else ''ESTABLISHED''
                   else ''OPEN''),
      col_service = (case getservbyport e p of None \<Rightarrow> ''unknown'' | Some s_name \<Rightarrow> s_name),
      col_process = (if owner_info e p = [] then ''unknown'' else owner_info e p)\<rparr>"

definition port_events :: "env \<Rightarrow> int \<Rightarrow> event list" where
  "port_events e p =
     EvSocket p First #
     (if socket_ok e p First
      then EvConnect p First #
           (if connect_ok e p First
            then EvSocket p Second #
                 (if socket_ok e p Second then [EvConnect p Second] else []) @ [EvOpendir p]
            else [])
      else [])"

lemma check_port_state_eq:
  "check_port_state e p st =
     (if socket_ok e p Second
      then (if connect_ok e p Second then 2 else 1,
            st\<lparr>trace := trace st @ [EvSocket p Second, EvConnect p Second]\<rparr>)
      else (0, st\<lparr>trace := trace st @ [EvSocket p Second]\<rparr>))"
  by (simp add: check_port_state_def sys_defs)

lemma get_process_info_frame:
  "our_pid (snd (get_process_info e p st)) = our_pid st
   \<and> trace (snd (get_process_info e p st)) = trace st @ [EvOpendir p]
   \<and> out (snd (get_process_info e p st)) = out st"
  by (simp add: get_process_info_def case_prod_unfold correlate_frame)

lemma get_process_info_fst:
  "our_pid st = getpid e \<Longrightarrow> fst (get_process_info e p st) = owner_info e p"
  by (simp add: owner_info_def get_process_info_def case_prod_unfold correlate_fst
      cong: option.case_cong)

lemma scan_port_pid: "our_pid (scan_port e p st) = our_pid st"
  by (simp add: scan_port_def sys_defs check_port_state_eq get_process_info_frame case_prod_unfold
      split: bool.splits)

lemma scan_port_trace: "trace (scan_port e p st) = trace st @ port_events e p"
  by (simp add: scan_port_def sys_defs check_port_state_eq get_process_info_frame case_prod_unfold
      port_events_def split: bool.splits)

lemma scan_port_out:
  "our_pid st = getpid e \<Longrightarrow>
   out (scan_port e p st) = out st @ (if first_dial_ok e p then [port_row e p] else [])"
  by (simp add: scan_port_def sys_defs check_port_state_eq get_process_info_frame
      get_process_info_fst case_prod_unfold first_dial_ok_def port_row_def state_name_def
      split: bool.splits)

lemma scan_port_closed:
  "\<not> first_dial_ok e p \<Longrightarrow> scan_port e p st = st\<lparr>trace := trace st @ port_events e p\<rparr>"
  by (auto simp: scan_port_def sys_defs first_dial_ok_def port_events_def split: bool.splits)

lemma scan_loop_effect:
  "our_pid st = getpid e \<Longrightarrow>
   our_pid (scan_loop e p st) = getpid e
   \<and> out (scan_loop e p st) = out st @ map (port_row e) (filter (first_dial_ok e) [p..END_PORT])
   \<and> trace (scan_loop e p st) = trace st @ concat (map (port_events e) [p..END_PORT])"
proof (induction e p st rule: scan_loop.induct)
  case (1 e port st)
  show ?case
  proof (cases "port \<le> END_PORT")
    case False
    then have "scan_loop e port st = st" by (subst scan_loop.simps) simp
    with False 1(2) show ?thesis by simp
  next
    case True
    then have unf: "scan_loop e port st = scan_loop e (port + 1) (scan_port e port st)"
      by (subst scan_loop.simps) simp
    have pid: "our_pid (scan_port e port st) = getpid e"
      using 1(2) by (simp add: scan_port_pid)
    from True have up: "[port..END_PORT] = port # [port + 1..END_PORT]"
      by (rule upto_rec1)
    from 1(1) [OF True pid] show ?thesis
      unfolding unf up using 1(2) by (simp add: scan_port_out scan_port_trace)
  qed
qed

lemma out_main: "out (main e) = map (port_row e) (filter (first_dial_ok e) [1..65535])"
  using scan_loop_effect [of "initial_state\<lparr>our_pid := getpid e\<rparr>" e START_PORT]
  by (simp add: main_def initial_state_def START_PORT_def END_PORT_def)

lemma trace_main: "trace (main e) = concat (map (port_events e) [1..65535])"
  using scan_loop_effect [of "initial_state\<lparr>our_pid := getpid e\<rparr>" e START_PORT]
  by (simp add: main_def initial_state_def START_PORT_def END_PORT_def)

text \<open>
  What the calls in the trace are for: \<open>probe_port\<close> is the port of a socket made by
  \<open>main\<close>, the start of the probe of the port; \<open>first_connect_port\<close> the port of a
  \<open>connect\<close> on such a socket; \<open>event_port\<close> the port any call is made for.
\<close>

definition probe_port :: "event \<Rightarrow> int option" where
  "probe_port ev = (case ev of EvSocket p d \<Rightarrow> (case d of First \<Rightarrow> Some p | Second \<Rightarrow> None)
                             | EvConnect p d \<Rightarrow> None | EvOpendir p \<Rightarrow> None)"

definition first_connect_port :: "event \<Rightarrow> int option" where
  "first_connect_port ev = (case ev of EvSocket p d \<Rightarrow> None
                             | EvConnect p d \<Rightarrow> (case d of First \<Rightarrow> Some p | Second \<Rightarrow> None)
                             | EvOpendir p \<Rightarrow> None)"

definition event_port :: "event \<Rightarrow> int" where
  "event_port ev = (case ev of EvSocket p d \<Rightarrow> p | EvConnect p d \<Rightarrow> p | EvOpendir p \<Rightarrow> p)"

lemma filter_eq_upto:
  assumes "a \<le> p" "p \<le> b"
  shows "filter (\<lambda>q. q = p) [a..b] = [p]"
proof -
  from assms have "[a..b] = [a..p - 1] @ p # [p + 1..b]" by (rule upto_split3)
  moreover have "filter (\<lambda>q. q = p) [a..p - 1] = []" by (simp add: filter_empty_conv)
  moreover have "filter (\<lambda>q. q = p) [p + 1..b] = []" by (simp add: filter_empty_conv)
  ultimately show ?thesis by simp
qed

lemma row_of_port:
  assumes "1 \<le> p" "p \<le> 65535" "first_dial_ok e p"
  shows "filter (\<lambda>r. col_port r = p) (out (main e)) = [port_row e p]"
proof -
  have "filter (\<lambda>r. col_port r = p) (out (main e))
          = map (port_row e) (filter (first_dial_ok e) (filter (\<lambda>q. q = p) [1..65535]))"
    by (simp add: out_main filter_map comp_def port_row_def conj_commute)
  with assms show ?thesis by (simp add: filter_eq_upto)
qed

lemma ports_of_out: "map col_port (out (main e)) = filter (first_dial_ok e) [1..65535]"
  by (simp add: out_main comp_def port_row_def)

lemma map_filter_concat_map:
  "List.map_filter f (concat (map g xs)) = concat (map (\<lambda>x. List.map_filter f (g x)) xs)"
  by (induction xs) (simp_all add: List.map_filter_def)

lemma concat_map_if_singleton: "concat (map (\<lambda>x. if P x then [x] else []) xs) = filter P xs"
  by (induction xs) simp_all

lemma probes_of_port: "List.map_filter probe_port (port_events e p) = [p]"
  by (simp add: port_events_def List.map_filter_def probe_port_def)

lemma first_connects_of_port:
  "List.map_filter first_connect_port (port_events e p) = (if socket_ok e p First then [p] else [])"
  by (simp add: port_events_def List.map_filter_def first_connect_port_def)

lemma event_port_of_port: "ev \<in> set (port_events e p) \<Longrightarrow> event_port ev = p"
  by (auto simp: port_events_def event_port_def split: if_splits)

lemma second_dial_needs_first:
  "ev \<in> set (port_events e q) \<Longrightarrow> ev \<in> {EvSocket p Second, EvConnect p Second, EvOpendir p}
   \<Longrightarrow> first_dial_ok e p"
  by (auto simp: port_events_def first_dial_ok_def split: if_splits)

lemma set_trace_main: "set (trace (main e)) = (\<Union>p \<in> {1..65535}. set (port_events e p))"
  by (simp add: trace_main)

text \<open>
  What stays open: \<open>check_port_state\<close> closes the socket it makes, and
  \<open>read_details\<close> closes the comm and status files when both are open.
\<close>

lemma read_details_handles:
  "handles (snd (read_details e p d buf st)) =
     (case fopen_proc e p (proc_path d ''comm'') of
        None \<Rightarrow> (case fopen_proc e p (proc_path d ''status'') of
                   None \<Rightarrow> handles st
                 | Some _ \<Rightarrow> HFile (proc_path d ''status'') # handles st)
      | Some _ \<Rightarrow> (case fopen_proc e p (proc_path d ''status'') of
                     None \<Rightarrow> HFile (proc_path d ''comm'') # handles st
                   | Some _ \<Rightarrow> handles st))"
  by (simp add: read_details_def sys_defs Let_def case_prod_unfold split: option.splits)

lemma check_port_state_handles: "handles (snd (check_port_state e p st)) = handles st"
  by (simp add: check_port_state_eq)

section \<open>A small system to run the scanner on\<close>

text \<open>
  A socket table with the local ports 22 (hex 16) and 80 (hex 50), and a /proc in which
  it is the table of every process (they share one network namespace): process 10 is
  owned by uid 1000, which the user database does not know; process 20 by root; process
  30 has a comm file but no status file (it is gone when the status file is opened);
  the status file of process 40 has no \<open>Uid:\<close> line; process 99 is the scanner.
  Port 80 accepts every connection, port 22 one connection only, for port 8080 no
  second socket can be made, and for port 9000 no socket at all.
\<close>

definition demo_tcp :: string where
  "demo_tcp =
     ''  sl  local_address rem_address   st'' @ [CHR 0x0A] @
     ''   0: 00000000:0016 00000000:0000 0A'' @ [CHR 0x0A] @
     ''   1: 0100007F:0050 00000000:0000 0A'' @ [CHR 0x0A]"

definition demo_files :: "string \<Rightarrow> string option" where
  "demo_files path =
     (if path \<in> set [''/proc/10/net/tcp'', ''/proc/20/net/tcp'', ''/proc/30/net/tcp'',
                       ''/proc/40/net/tcp'', ''/proc/99/net/tcp''] then Some demo_tcp
      else if path = ''/proc/10/comm'' then Some (''alpha'' @ [CHR 0x0A])
      else if path = ''/proc/10/status''
        then Some (''Name:'' @ [CHR 0x09] @ ''alpha'' @ [CHR 0x0A]
                   @ ''Uid:'' @ [CHR 0x09] @ ''1000'' @ [CHR 0x09] @ ''1000'' @ [CHR 0x0A])
      else if path = ''/proc/20/comm'' then Some (''beta'' @ [CHR 0x0A])
      else if path = ''/proc/20/status''
        then Some (''Name:'' @ [CHR 0x09] @ ''beta'' @ [CHR 0x0A]
                   @ ''Uid:'' @ [CHR 0x09] @ ''0'' @ [CHR 0x09] @ ''0'' @ [CHR 0x0A])
      else if path = ''/proc/30/comm'' then Some (''gamma'' @ [CHR 0x0A])
      else if path = ''/proc/40/comm'' then Some (''delta'' @ [CHR 0x0A])
      else if path = ''/proc/40/status'' then Some (''Name:'' @ [CHR 0x09] @ ''delta'' @ [CHR 0x0A])
      else if path = ''/proc/99/comm'' then Some (''quickdirtyscan'' @ [CHR 0x0A])
      else if path = ''/proc/99/status''
        then Some (''Name:'' @ [CHR 0x09] @ ''quickdirtyscan'' @ [CHR 0x0A]
                   @ ''Uid:'' @ [CHR 0x09] @ ''0'' @ [CHR 0x09] @ ''0'' @ [CHR 0x0A])
      else None)"

definition demo_env :: "string list \<Rightarrow> env" where
  "demo_env names =
     \<lparr>getpid = 99,
      socket_ok = (\<lambda>p d. \<not> (p = 8080 \<and> d = Second) \<and> p \<noteq> 9000),
      connect_ok = (\<lambda>p d. p = 80 \<or> p = 8080 \<or> (p = 22 \<and> d = First)),
      readdir_proc = (\<lambda>p. Some names),
      fopen_proc = (\<lambda>p. demo_files),
      getpwuid = (\<lambda>u. if u = 0 then Some ''root'' else None),
      getservbyport = (\<lambda>p. if p = 80 then Some ''http'' else if p = 22 then Some ''ssh'' else None)\<rparr>"

definition demo_state :: state where
  "demo_state = initial_state\<lparr>our_pid := 99\<rparr>"

text \<open>
  The correlation as the specification words it (section 4.2): the processes are taken
  in the order of the enumeration, the scanner itself is passed over, and the first
  process whose socket table has the port decides the result; a later process is looked
  at only if no match was found. It is compared with \<open>correlate\<close> below.
\<close>

fun first_match_spec :: "env \<Rightarrow> int \<Rightarrow> int \<Rightarrow> string list \<Rightarrow> proc_record option" where
  "first_match_spec e port pid [] = None"
| "first_match_spec e port pid (d_name # names) =
     (if entry_matches e port pid d_name then proc_details e port d_name
      else first_match_spec e port pid names)"

text \<open>A line of a socket table with the local port 80.\<close>

definition demo_line80 :: string where
  "demo_line80 = ''   1: 0100007F:0050 00000000:0000 0A'' @ [CHR 0x0A]"

lemma format_info_nonempty: "format_info r \<noteq> []"
  by (simp add: format_info_def snprintf_def pad_right_def)

lemma no_match_no_record:
  "filter (entry_matches e p pid) names = [] \<Longrightarrow> List.map_filter (entry_record e p pid) names = []"
  by (induction names) (auto simp: List.map_filter_simps entry_record_eq split: if_splits)

text \<open>The row that is printed for port 80 when the processes 10 and 20 hold it.\<close>

lemma demo_rows_80:
  "map format_row (out (scan_port (demo_env [''10'', ''20'']) 80 demo_state))
     = [''80       LISTENING    http                 beta             PID: 20      User: root    ''
        @ [CHR 0x0A]]"
  by code_simp

section \<open>The claims\<close>

text \<open>
  C1. For a port whose first connection attempt succeeds, \<open>check_port_state\<close> returns
  2 when the second attempt succeeds, 1 when it fails and 0 when the second socket cannot
  be made, and the one row printed for the port has the state LISTENING, ESTABLISHED or
  OPEN accordingly. There is no fourth outcome.
\<close>

theorem two_dial_policy:
  assumes "1 \<le> p" "p \<le> 65535" "first_dial_ok e p"
  shows "fst (check_port_state e p st)
           = (if socket_ok e p Second then if connect_ok e p Second then 2 else 1 else 0)
         \<and> (\<exists>r. filter (\<lambda>r. col_port r = p) (out (main e)) = [r]
                \<and> col_state r = (if socket_ok e p Second
                                 then if connect_ok e p Second then ''LISTENING'' else ''ESTABLISHED''
                                 else ''OPEN''))"
  using row_of_port [OF assms] by (simp add: check_port_state_eq port_row_def)

theorem two_dial_policy_witness:
  "(\<exists>r. filter (\<lambda>r. col_port r = 80) (out (main (demo_env []))) = [r] \<and> col_state r = ''LISTENING'')
   \<and> (\<exists>r. filter (\<lambda>r. col_port r = 22) (out (main (demo_env []))) = [r] \<and> col_state r = ''ESTABLISHED'')
   \<and> (\<exists>r. filter (\<lambda>r. col_port r = 8080) (out (main (demo_env []))) = [r] \<and> col_state r = ''OPEN'')"
  using two_dial_policy [of 80 "demo_env []"] two_dial_policy [of 22 "demo_env []"]
    two_dial_policy [of 8080 "demo_env []"]
  by (simp add: demo_env_def first_dial_ok_def)

text \<open>
  C2, as the code has it. The claim says that the first matching process wins. The loop
  over /proc does not stop at a match: \<open>break\<close> leaves the loop over the lines of one
  socket table only, and a later process that matches overwrites the buffer. So
  correlation returns the record of the last entry of the enumeration that gives one:
  an entry other than the scanner's whose socket table has the port and whose comm and
  status files could be read. Within one socket table the scan does stop at the first
  line with the port, and with no entry giving a record the result is the empty buffer.
\<close>

theorem last_match_wins:
  "fst (correlate e port st) =
     (case readdir_proc e port of
        None \<Rightarrow> None
      | Some names \<Rightarrow>
          (case List.map_filter (entry_record e port (our_pid st)) names of
             [] \<Rightarrow> None
           | r # rs \<Rightarrow> Some (last (r # rs))))
   \<and> entry_record e port pid d =
       (if entry_matches e port pid d then proc_details e port d else None)
   \<and> (fgets 256 fp = Some (line, rest) \<and> sscanf_tcp_line (cstr line) = Some port
        \<longrightarrow> scan_tcp e port d fp buf st = read_details e port d buf st)"
  by (simp add: correlate_fst entry_record_eq scan_tcp_first_match)

lemma demo_two_records:
  "List.map_filter (entry_record (demo_env [''10'', ''20'']) 80 99) [''10'', ''20'']
     = [\<lparr>exe_name = ''alpha'', pid_str = ''10'', owner_name = ''unknown''\<rparr>,
        \<lparr>exe_name = ''beta'', pid_str = ''20'', owner_name = ''root''\<rparr>]"
  by code_simp

lemma demo_line80_read:
  "fgets 256 (demo_line80 @ ''rest of the table'') = Some (demo_line80, ''rest of the table'')
   \<and> sscanf_tcp_line (cstr demo_line80) = Some 80"
  by code_simp

theorem last_match_wins_witness:
  "fst (correlate (demo_env [''10'', ''20'']) 80 demo_state)
     = Some \<lparr>exe_name = ''beta'', pid_str = ''20'', owner_name = ''root''\<rparr>
   \<and> scan_tcp (demo_env [''10'', ''20'']) 80 ''20'' (demo_line80 @ ''rest of the table'') None demo_state
       = read_details (demo_env [''10'', ''20'']) 80 ''20'' None demo_state"
  using last_match_wins [of "demo_env [''10'', ''20'']" 80 demo_state 99 "''20''"
      "demo_line80 @ ''rest of the table''" demo_line80 "''rest of the table''" None]
    demo_two_records demo_line80_read
  by (simp add: demo_state_def demo_env_def)

text \<open>
  With the processes 10 and 20 both holding port 80, in this order, the first match of
  the specification is process 10; the code returns process 20.
\<close>

lemma demo_first_match:
  "first_match_spec (demo_env [''10'', ''20'']) 80 99 [''10'', ''20'']
     = Some \<lparr>exe_name = ''alpha'', pid_str = ''10'', owner_name = ''unknown''\<rparr>"
  by code_simp

lemma demo_code_match:
  "fst (correlate (demo_env [''10'', ''20'']) 80 demo_state)
     = Some \<lparr>exe_name = ''beta'', pid_str = ''20'', owner_name = ''root''\<rparr>"
  by code_simp

theorem first_match_counterexample:
  "readdir_proc (demo_env [''10'', ''20'']) 80 = Some [''10'', ''20'']
   \<and> our_pid demo_state = 99
   \<and> first_match_spec (demo_env [''10'', ''20'']) 80 99 [''10'', ''20'']
       = Some \<lparr>exe_name = ''alpha'', pid_str = ''10'', owner_name = ''unknown''\<rparr>
   \<and> fst (correlate (demo_env [''10'', ''20'']) 80 demo_state)
       = Some \<lparr>exe_name = ''beta'', pid_str = ''20'', owner_name = ''root''\<rparr>
   \<and> fst (correlate (demo_env [''10'', ''20'']) 80 demo_state)
       \<noteq> first_match_spec (demo_env [''10'', ''20'']) 80 99 [''10'', ''20'']"
  using demo_first_match demo_code_match by (simp add: demo_env_def demo_state_def)

text \<open>
  C3. The record that correlation returns never has the scanner's own process
  identifier: the name of the /proc entry it is made from reads (with \<open>atoi\<close>, as the
  source compares it) as a number other than \<open>our_pid\<close>, and so is not the decimal
  numeral of \<open>our_pid\<close>. This holds for every port and every content of /proc; when
  only the scanner's own entry has the port, the result is no record or the record of
  another entry.
\<close>

theorem never_self:
  assumes "fst (correlate e port st) = Some r"
  shows "atoi (pid_str r) \<noteq> our_pid st
         \<and> (0 \<le> our_pid st \<and> our_pid st < 2 ^ 31 \<longrightarrow> pid_str r \<noteq> dec_of_int (our_pid st))"
proof -
  from correlate_from_entry [OF assms] obtain d
    where "entry_record e port (our_pid st) d = Some r" by blast
  from entry_record_candidate [OF this] have "atoi (pid_str r) \<noteq> our_pid st"
    by (auto simp: candidate_def split: list.splits)
  then show ?thesis using atoi_dec_of_int [of "our_pid st"] by auto
qed

lemma demo_correlate_self_last:
  "fst (correlate (demo_env [''.'', ''self'', ''20'', ''99'']) 80 demo_state)
     = Some \<lparr>exe_name = ''beta'', pid_str = ''20'', owner_name = ''root''\<rparr>"
  by code_simp

theorem never_self_witness:
  "fst (correlate (demo_env [''.'', ''self'', ''20'', ''99'']) 80 demo_state)
     = Some \<lparr>exe_name = ''beta'', pid_str = ''20'', owner_name = ''root''\<rparr>
   \<and> atoi ''20'' \<noteq> 99 \<and> ''20'' \<noteq> dec_of_int 99"
  using never_self [OF demo_correlate_self_last] demo_correlate_self_last
  by (simp add: demo_state_def)

text \<open>
  C4. The claim does not hold of the code: when the comm file of a matching process
  opens and its status file does not, \<open>fclose\<close> is called on neither, and the comm
  handle is still open when \<open>get_process_info\<close> returns. Process 30 is such a process.
\<close>

theorem comm_handle_left_open:
  "handles demo_state = []
   \<and> fopen_proc (demo_env [''30'']) 80 ''/proc/30/comm'' = Some (''gamma'' @ [CHR 0x0A])
   \<and> fopen_proc (demo_env [''30'']) 80 ''/proc/30/status'' = None
   \<and> handles (snd (get_process_info (demo_env [''30'']) 80 demo_state)) = [HFile ''/proc/30/comm'']"
  by code_simp

text \<open>
  C5. The probe of a port starts with the socket that \<open>main\<close> makes for it. The sweep
  starts a probe for the ports 1 to 65535, each once, in ascending order; the first
  connection attempts are those of the ports whose socket could be made, in the same
  order; no call is made for a port below 1 or above 65535; and the ports of the rows
  printed are the ports whose first connection attempt succeeded, each once, ascending.
\<close>

theorem sweep_range:
  "List.map_filter probe_port (trace (main e)) = [1..65535]
   \<and> List.map_filter first_connect_port (trace (main e))
       = filter (\<lambda>p. socket_ok e p First) [1..65535]
   \<and> filter (\<lambda>ev. event_port ev < 1 \<or> 65535 < event_port ev) (trace (main e)) = []
   \<and> map col_port (out (main e)) = filter (first_dial_ok e) [1..65535]"
proof -
  have "List.map_filter probe_port (trace (main e)) = [1..65535]"
    using concat_map_if_singleton [of "\<lambda>x. True" "[1..65535]"]
    by (simp add: trace_main map_filter_concat_map probes_of_port)
  moreover have "List.map_filter first_connect_port (trace (main e))
       = filter (\<lambda>p. socket_ok e p First) [1..65535]"
    by (simp add: trace_main map_filter_concat_map first_connects_of_port concat_map_if_singleton)
  moreover have "filter (\<lambda>ev. event_port ev < 1 \<or> 65535 < event_port ev) (trace (main e)) = []"
    by (auto simp: filter_empty_conv set_trace_main dest: event_port_of_port)
  ultimately show ?thesis by (simp add: ports_of_out)
qed

text \<open>
  C6. For a port whose first connection attempt fails, or whose socket cannot be made, a
  run makes no second socket and no second connection attempt, does not open /proc for
  it and prints no row for it; the loop body only adds its one or two calls to the trace
  and leaves nothing open; and the probe of the next port is started.
\<close>

theorem closed_port_skipped:
  assumes "\<not> first_dial_ok e p"
  shows "EvSocket p Second \<notin> set (trace (main e))
         \<and> EvConnect p Second \<notin> set (trace (main e))
         \<and> EvOpendir p \<notin> set (trace (main e))
         \<and> p \<notin> set (map col_port (out (main e)))
         \<and> scan_port e p st
             = st\<lparr>trace := trace st @ EvSocket p First
                                      # (if socket_ok e p First then [EvConnect p First] else [])\<rparr>
         \<and> (1 \<le> p \<and> p < 65535 \<longrightarrow> EvSocket (p + 1) First \<in> set (trace (main e)))"
proof -
  have "ev \<notin> set (trace (main e))"
    if "ev \<in> {EvSocket p Second, EvConnect p Second, EvOpendir p}" for ev
    using assms that second_dial_needs_first [of ev e _ p] by (auto simp: set_trace_main)
  moreover have "p \<notin> set (map col_port (out (main e)))"
    using assms by (simp add: ports_of_out)
  moreover have "scan_port e p st
             = st\<lparr>trace := trace st @ EvSocket p First
                                      # (if socket_ok e p First then [EvConnect p First] else [])\<rparr>"
    using assms by (auto simp: scan_port_closed port_events_def first_dial_ok_def)
  moreover have "EvSocket (p + 1) First \<in> set (trace (main e))" if "1 \<le> p" "p < 65535"
    using that by (auto simp: set_trace_main port_events_def intro!: bexI [of _ "p + 1"])
  ultimately show ?thesis by simp
qed

theorem closed_port_skipped_witness:
  "\<not> first_dial_ok (demo_env []) 81 \<and> \<not> first_dial_ok (demo_env []) 9000
   \<and> EvSocket 81 Second \<notin> set (trace (main (demo_env [])))
   \<and> EvOpendir 9000 \<notin> set (trace (main (demo_env [])))
   \<and> 81 \<notin> set (map col_port (out (main (demo_env []))))
   \<and> scan_port (demo_env []) 81 demo_state
       = demo_state\<lparr>trace := [EvSocket 81 First, EvConnect 81 First]\<rparr>
   \<and> scan_port (demo_env []) 9000 demo_state = demo_state\<lparr>trace := [EvSocket 9000 First]\<rparr>
   \<and> EvSocket 82 First \<in> set (trace (main (demo_env [])))"
  using closed_port_skipped [of "demo_env []" 81 demo_state]
    closed_port_skipped [of "demo_env []" 9000 demo_state]
  by (simp add: demo_env_def first_dial_ok_def demo_state_def initial_state_def)

text \<open>
  C7. The state printed for a port is LISTENING, ESTABLISHED or OPEN, and the ports
  printed with their states are the same in two runs in which \<open>socket\<close> and
  \<open>connect\<close> answer alike, whatever /proc, the databases and the scanner's identifier
  are in each.
\<close>

theorem classification_ignores_proc:
  assumes "socket_ok e = socket_ok e'" "connect_ok e = connect_ok e'"
  shows "map (\<lambda>r. (col_port r, col_state r)) (out (main e))
           = map (\<lambda>r. (col_port r, col_state r)) (out (main e'))
         \<and> set (map col_state (out (main e))) \<subseteq> {''LISTENING'', ''ESTABLISHED'', ''OPEN''}"
proof -
  from assms have "first_dial_ok e = first_dial_ok e'"
    by (simp add: first_dial_ok_def fun_eq_iff)
  with assms show ?thesis
    by (auto simp: out_main comp_def port_row_def)
qed

theorem classification_ignores_proc_witness:
  "map (\<lambda>r. (col_port r, col_state r)) (out (main (demo_env [''10''])))
     = map (\<lambda>r. (col_port r, col_state r))
         (out (main ((demo_env [''20'', ''30''])\<lparr>getpid := 7, fopen_proc := \<lambda>p path. None\<rparr>)))
   \<and> set (map col_state (out (main (demo_env [''10''])))) \<subseteq> {''LISTENING'', ''ESTABLISHED'', ''OPEN''}"
  using classification_ignores_proc [of "demo_env [''10'']"
      "(demo_env [''20'', ''30''])\<lparr>getpid := 7, fopen_proc := \<lambda>p path. None\<rparr>"]
  by (simp add: demo_env_def)









text \<open>
  C10. \<open>get_process_info\<close> returns a string on every input (the model is a total
  function: every loop of the source ends), the empty one or a formatted record, which
  is not empty. It is empty when /proc cannot be opened and when no entry other than the
  scanner's own has the port in its socket table; and \<open>main\<close> prints \<open>unknown\<close> in
  the PROCESS column of the row of a port for which it is empty.
\<close>

theorem empty_info_is_unknown:
  "(fst (get_process_info e p st) = []
      \<or> (\<exists>r. fst (get_process_info e p st) = format_info r \<and> format_info r \<noteq> []))
   \<and> (readdir_proc e p = None \<longrightarrow> fst (get_process_info e p st) = [])
   \<and> (readdir_proc e p = Some names \<and> filter (entry_matches e p (our_pid st)) names = []
        \<longrightarrow> fst (get_process_info e p st) = [])
   \<and> (1 \<le> p \<and> p \<le> 65535 \<and> first_dial_ok e p
        \<and> fst (get_process_info e p (initial_state\<lparr>our_pid := getpid e\<rparr>)) = []
        \<longrightarrow> (\<exists>r. filter (\<lambda>r. col_port r = p) (out (main e)) = [r]
                  \<and> col_process r = ''unknown''))"
proof -
  have a: "fst (get_process_info e p st) = buffer_string (fst (correlate e p st))"
    by (simp add: get_process_info_def case_prod_unfold)
  have "fst (get_process_info e p st) = []
      \<or> (\<exists>r. fst (get_process_info e p st) = format_info r \<and> format_info r \<noteq> [])"
    unfolding a by (cases "fst (correlate e p st)") (auto simp: buffer_string_def format_info_nonempty)
  moreover have "fst (get_process_info e p st) = []" if "readdir_proc e p = None"
    unfolding a using that by (simp add: correlate_fst buffer_string_def)
  moreover have "fst (get_process_info e p st) = []"
    if "readdir_proc e p = Some names" "filter (entry_matches e p (our_pid st)) names = []"
    unfolding a using that no_match_no_record [of e p "our_pid st" names]
    by (simp add: correlate_fst buffer_string_def)
  moreover have "\<exists>r. filter (\<lambda>r. col_port r = p) (out (main e)) = [r] \<and> col_process r = ''unknown''"
    if "1 \<le> p" "p \<le> 65535" "first_dial_ok e p"
      "fst (get_process_info e p (initial_state\<lparr>our_pid := getpid e\<rparr>)) = []"
    using row_of_port [OF that(1-3)] that(4) by (simp add: port_row_def owner_info_def)
  ultimately show ?thesis by blast
qed

lemma demo_only_self:
  "filter (entry_matches (demo_env [''.'', ''self'', ''99'']) 80 99) [''.'', ''self'', ''99''] = []"
  by code_simp

theorem empty_info_is_unknown_witness:
  "fst (get_process_info ((demo_env [])\<lparr>readdir_proc := \<lambda>p. None\<rparr>) 80 demo_state) = []
   \<and> fst (get_process_info (demo_env [''.'', ''self'', ''99'']) 80 demo_state) = []
   \<and> (\<exists>r. filter (\<lambda>r. col_port r = 80) (out (main (demo_env [''.'', ''self'', ''99'']))) = [r]
          \<and> col_process r = ''unknown'')"
  using empty_info_is_unknown [of "(demo_env [])\<lparr>readdir_proc := \<lambda>p. None\<rparr>" 80 demo_state "[]"]
    empty_info_is_unknown [of "demo_env [''.'', ''self'', ''99'']" 80 demo_state "[''.'', ''self'', ''99'']"]
    demo_only_self
  by (simp add: demo_env_def demo_state_def initial_state_def first_dial_ok_def)

end
